theory Spec2Isabelle
  imports Main "HOL-Library.Word"
begin

section \<open>Severity levels and their textual form (logger.go)\<close>

text \<open>
  \<^verbatim>\<open>type LogLevel uint8\<close>: a severity is an unsigned byte. The seven named levels
  are the values 0 to 6 (an \<^verbatim>\<open>iota\<close> block starting at \<^verbatim>\<open>PanicLevel\<close>); the other
  249 byte values are legal values of the type with no name.
\<close>

type_synonym LogLevel = "8 word"

definition PanicLevel :: LogLevel where "PanicLevel = 0"
definition FatalLevel :: LogLevel where "FatalLevel = 1"
definition ErrorLevel :: LogLevel where "ErrorLevel = 2"
definition WarnLevel :: LogLevel where "WarnLevel = 3"
definition InfoLevel :: LogLevel where "InfoLevel = 4"
definition DebugLevel :: LogLevel where "DebugLevel = 5"
definition TraceLevel :: LogLevel where "TraceLevel = 6"

lemmas LogLevel_defs =
  PanicLevel_def FatalLevel_def ErrorLevel_def WarnLevel_def InfoLevel_def
  DebugLevel_def TraceLevel_def

text \<open>
  \<^verbatim>\<open>strings.ToUpper\<close>. A Go string is a byte sequence. When every byte is below
  \<^verbatim>\<open>0x80\<close> the library upper-cases byte by byte, subtracting \<^verbatim>\<open>'a' - 'A'\<close> from
  the bytes between \<^verbatim>\<open>'a'\<close> and \<^verbatim>\<open>'z'\<close>. Otherwise it maps the Unicode case
  table over the runes of the string; that table is not part of this repository and is
  the parameter \<open>U\<close>.
\<close>

definition upper_byte :: "char \<Rightarrow> char" where
  "upper_byte c =
     (if 97 \<le> (of_char c :: nat) \<and> (of_char c :: nat) \<le> 122
      then char_of ((of_char c :: nat) - 32) else c)"

definition isASCII :: "string \<Rightarrow> bool" where
  "isASCII s = list_all (\<lambda>c. (of_char c :: nat) < 128) s"

definition ToUpper :: "(string \<Rightarrow> string) \<Rightarrow> string \<Rightarrow> string" where
  "ToUpper U s = (if isASCII s then map upper_byte s else U s)"

text \<open>
  \<^verbatim>\<open>Text2Level\<close>: a \<^verbatim>\<open>switch\<close> over the upper-cased text with eight cases and no
  \<^verbatim>\<open>default\<close>. The result variable is declared by \<^verbatim>\<open>var logLevel LogLevel\<close>, so
  when no case matches the function returns the zero value of the type, the byte 0.
\<close>

definition Text2Level :: "(string \<Rightarrow> string) \<Rightarrow> string \<Rightarrow> LogLevel" where
  "Text2Level U level =
     (let u = ToUpper U level in
      if u = ''TRACE'' then TraceLevel
      else if u = ''DEBUG'' then DebugLevel
      else if u = ''INFO'' then InfoLevel
      else if u = ''WARNING'' then WarnLevel
      else if u = ''ERROR'' then ErrorLevel
      else if u = ''FATAL'' then FatalLevel
      else if u = ''PANIC'' then PanicLevel
      else if u = ''UNKNOWN'' then InfoLevel
      else 0)"

text \<open>The package's configuration record (\<^verbatim>\<open>type Config struct\<close>).\<close>

record Config =
  Level :: string
  IsJson :: bool

section \<open>The backend's vocabulary (go.uber.org/zap)\<close>

text \<open>
  \<^verbatim>\<open>zapcore.Level\<close> is a signed byte; the backend's constants are
  Debug = -1, Info = 0, Warn = 1, Error = 2, DPanic = 3, Panic = 4, Fatal = 5.
  A word of width 8 read through \<open>sint\<close> is that type.
\<close>

type_synonym zapcore_Level = "8 word"

definition zap_DebugLevel :: zapcore_Level where "zap_DebugLevel = - 1"
definition zap_InfoLevel :: zapcore_Level where "zap_InfoLevel = 0"
definition zap_WarnLevel :: zapcore_Level where "zap_WarnLevel = 1"
definition zap_ErrorLevel :: zapcore_Level where "zap_ErrorLevel = 2"
definition zap_DPanicLevel :: zapcore_Level where "zap_DPanicLevel = 3"
definition zap_PanicLevel :: zapcore_Level where "zap_PanicLevel = 4"
definition zap_FatalLevel :: zapcore_Level where "zap_FatalLevel = 5"

lemmas zap_Level_defs =
  zap_DebugLevel_def zap_InfoLevel_def zap_WarnLevel_def zap_ErrorLevel_def
  zap_DPanicLevel_def zap_PanicLevel_def zap_FatalLevel_def

text \<open>
  \<^verbatim>\<open>convLevel\<close> (zap.go): a pointer to the backend level, or \<^verbatim>\<open>nil\<close> from the
  \<^verbatim>\<open>default\<close> branch of the switch.
\<close>

definition convLevel :: "LogLevel \<Rightarrow> zapcore_Level option" where
  "convLevel level =
     (if level = TraceLevel then Some zap_DebugLevel
      else if level = DebugLevel then Some zap_DebugLevel
      else if level = InfoLevel then Some zap_InfoLevel
      else if level = WarnLevel then Some zap_WarnLevel
      else if level = ErrorLevel then Some zap_ErrorLevel
      else if level = FatalLevel then Some zap_FatalLevel
      else None)"

text \<open>The encoders a \<^verbatim>\<open>zapcore.EncoderConfig\<close> of this package can name.\<close>

datatype LevelEncoder = LowercaseLevelEncoder | CapitalColorLevelEncoder | TraceLevelEncoder
datatype TimeEncoder = ISO8601TimeEncoder
datatype CallerEncoder = ShortCallerEncoder | bracketsCallerEncoder

record EncoderConfig =
  MessageKey :: string
  LevelKey :: string
  TimeKey :: string
  CallerKey :: string
  EncodeLevel :: LevelEncoder
  EncodeTime :: TimeEncoder
  EncodeCaller :: CallerEncoder

text \<open>
  \<^verbatim>\<open>zap.Config\<close>, the fields \<^verbatim>\<open>newZap\<close> sets. \<open>zc_Level\<close> holds the level the
  atomic level is created at (\<^verbatim>\<open>zap.NewAtomicLevelAt(*lvl)\<close>).
\<close>

record zap_Config =
  zc_Level :: zapcore_Level
  zc_Development :: bool
  zc_Encoding :: string
  zc_OutputPaths :: "string list"
  zc_EncoderConfig :: EncoderConfig

datatype zap_Option = Development | AddCaller | AddCallerSkip int

text \<open>\<^verbatim>\<open>var skipCallers = 1\<close> and the package-level \<^verbatim>\<open>options\<close> slice.\<close>

definition skipCallers :: int where "skipCallers = 1"

definition options :: "zap_Option list" where
  "options = [Development, AddCaller, AddCallerSkip skipCallers]"

section \<open>Interface values, logger handles and the store\<close>

text \<open>
  A value of the interface type \<^verbatim>\<open>Logger\<close> is a reference: either a pointer to a
  \<^verbatim>\<open>zapLogger\<close> of this package, given by its address in the store, or a value of
  some other type implementing the interface (the test file's \<^verbatim>\<open>*MockLogger\<close>),
  given by an identity. The \<^verbatim>\<open>nil\<close> interface value is \<open>None\<close> of
  \<open>Logger option\<close>.
\<close>

datatype Logger = ZapLogger nat | OtherLogger nat

text \<open>
  \<^verbatim>\<open>interface{}\<close>: the dynamic values that occur as context keys, context values,
  and arguments of the logging calls. Only \<open>LoggerVal\<close> passes the type assertion
  \<^verbatim>\<open>o.(Logger)\<close>.
\<close>

datatype any = Nil | Str string | Num int | Err string | Slice "any list" | LoggerVal Logger

text \<open>\<^verbatim>\<open>type zapLogger struct { log zap.SugaredLogger; traceLevel bool }\<close>\<close>

record 'sl zapLogger =
  log :: 'sl
  traceLevel :: bool

text \<open>
  The store of allocated \<^verbatim>\<open>zapLogger\<close> objects: the address of an object is its
  position. \<open>new\<close> is the composite literal \<^verbatim>\<open>&zapLogger{...}\<close> returned as a
  \<^verbatim>\<open>Logger\<close>; no function of the package writes to an object after that.
\<close>

type_synonym 'sl heap = "'sl zapLogger list"

definition new :: "'sl heap \<Rightarrow> 'sl zapLogger \<Rightarrow> Logger \<times> 'sl heap" where
  "new h obj = (ZapLogger (length h), h @ [obj])"

definition deref :: "'sl heap \<Rightarrow> Logger \<Rightarrow> 'sl zapLogger option" where
  "deref h l =
     (case l of
        ZapLogger p \<Rightarrow> (if p < length h then Some (h ! p) else None)
      | OtherLogger i \<Rightarrow> None)"

section \<open>External collaborators\<close>

text \<open>
  What the package calls and does not define: the Unicode branch of
  \<^verbatim>\<open>strings.ToUpper\<close>, \<^verbatim>\<open>fmt.Sprint\<close>, \<^verbatim>\<open>runtime.Caller\<close> (as seen from
  inside \<^verbatim>\<open>trace\<close>), and the backend. \<open>'zl\<close> is \<^verbatim>\<open>*zap.Logger\<close>, \<open>'sl\<close> is
  \<^verbatim>\<open>zap.SugaredLogger\<close>, \<open>'core\<close> is \<^verbatim>\<open>zapcore.Core\<close> and \<open>'ce\<close> is what a
  non-nil result of the backend's \<^verbatim>\<open>Check\<close> points to. Every theorem below holds
  for every such environment.
\<close>

record ('zl, 'sl, 'core, 'ce) env =
  unicode_ToUpper :: "string \<Rightarrow> string"
  fmt_Sprint :: "any list \<Rightarrow> string"
  runtime_Caller :: "nat \<Rightarrow> nat \<times> string \<times> int \<times> bool"
  zap_Build :: "zap_Config \<Rightarrow> string + 'zl"
  zap_Sugar :: "'zl \<Rightarrow> 'sl"
  zap_Desugar :: "'sl \<Rightarrow> 'zl"
  zap_With :: "'sl \<Rightarrow> any list \<Rightarrow> 'sl"
  zap_WithOptions :: "'zl \<Rightarrow> zap_Option list \<Rightarrow> 'zl"
  zap_SugaredWithOptions :: "'sl \<Rightarrow> zap_Option list \<Rightarrow> 'sl"
  zap_Check :: "'zl \<Rightarrow> zapcore_Level \<Rightarrow> string \<Rightarrow> 'ce option"
  zap_Core :: "'zl \<Rightarrow> 'core"

text \<open>
  A property a backend may have, and zap's has: \<^verbatim>\<open>Build\<close> returns a logger for every
  configuration whose encoding is one of the two registered names and whose only output
  path is \<^verbatim>\<open>"stdout"\<close>. It says nothing about any other configuration, and nothing
  about this package; it is never assumed silently, only named as a hypothesis.
\<close>

definition Build_accepts_registered :: "('zl, 'sl, 'core, 'ce) env \<Rightarrow> bool" where
  "Build_accepts_registered E =
     (\<forall>c. (zc_Encoding c = ''json'' \<or> zc_Encoding c = ''console'') \<and>
           zc_OutputPaths c = [''stdout''] \<longrightarrow>
           (\<exists>logger. zap_Build E c = Inr logger))"

section \<open>Construction (zap.go)\<close>

text \<open>
  An \<^verbatim>\<open>error\<close> value is told apart by where it was made: by
  \<^verbatim>\<open>errors.New\<close> in this package, or by the backend's \<^verbatim>\<open>Build\<close>.
\<close>

datatype error = errors_New string | BuildError string

text \<open>
  The \<^verbatim>\<open>zap.Config\<close> value \<^verbatim>\<open>newZap\<close> has assembled when it calls
  \<^verbatim>\<open>config.Build()\<close>: the literal, then the two conditional updates, in the order
  of the source.
\<close>

definition newZap_config :: "bool \<Rightarrow> LogLevel \<Rightarrow> zapcore_Level \<Rightarrow> zap_Config" where
  "newZap_config json level lvl =
     (let config = \<lparr>zc_Level = lvl, zc_Development = True, zc_Encoding = ''json'',
                     zc_OutputPaths = [''stdout''],
                     zc_EncoderConfig = \<lparr>MessageKey = ''message'', LevelKey = ''severity'',
                       TimeKey = ''timestamp'', CallerKey = ''module'',
                       EncodeLevel = LowercaseLevelEncoder, EncodeTime = ISO8601TimeEncoder,
                       EncodeCaller = ShortCallerEncoder\<rparr>\<rparr>;
          config = (if \<not> json
                    then config\<lparr>zc_Encoding := ''console'',
                           zc_EncoderConfig := (zc_EncoderConfig config)
                             \<lparr>EncodeLevel := CapitalColorLevelEncoder, TimeKey := '''',
                              EncodeCaller := bracketsCallerEncoder\<rparr>\<rparr>
                    else config);
          config = (if level = TraceLevel
                    then config\<lparr>zc_EncoderConfig := (zc_EncoderConfig config)
                             \<lparr>EncodeLevel := TraceLevelEncoder\<rparr>\<rparr>
                    else config)
      in config)"

text \<open>
  \<^verbatim>\<open>newZap\<close> returns \<^verbatim>\<open>(nil, err)\<close> or \<^verbatim>\<open>(handle, nil)\<close>: \<open>Inl\<close> is the first,
  \<open>Inr\<close> the second, with the store after the allocation.
\<close>

definition newZap ::
  "('zl, 'sl, 'core, 'ce) env \<Rightarrow> 'sl heap \<Rightarrow> bool \<Rightarrow> LogLevel \<Rightarrow> error + (Logger \<times> 'sl heap)" where
  "newZap E h json level =
     (case convLevel level of
        None \<Rightarrow> Inl (errors_New ''wrong logging level'')
      | Some lvl \<Rightarrow>
          (case zap_Build E (newZap_config json level lvl) of
             Inl err \<Rightarrow> Inl (BuildError err)
           | Inr logger \<Rightarrow>
               Inr (new h \<lparr>log = zap_Sugar E logger, traceLevel = (TraceLevel = level)\<rparr>)))"

text \<open>\<^verbatim>\<open>NewLogger\<close> (logger.go).\<close>

definition NewLogger ::
  "('zl, 'sl, 'core, 'ce) env \<Rightarrow> 'sl heap \<Rightarrow> Config \<Rightarrow> error + (Logger \<times> 'sl heap)" where
  "NewLogger E h conf = newZap E h (IsJson conf) (Text2Level (unicode_ToUpper E) (Level conf))"

section \<open>Methods of a handle (zap.go)\<close>

text \<open>
  The receiver \<open>l\<close> is the object the method's pointer receiver points to. The
  methods that return a \<^verbatim>\<open>Logger\<close> allocate; the others only read.
\<close>

definition WithError ::
  "('zl, 'sl, 'core, 'ce) env \<Rightarrow> 'sl heap \<Rightarrow> 'sl zapLogger \<Rightarrow> any \<Rightarrow> Logger \<times> 'sl heap" where
  "WithError E h l err =
     new h \<lparr>log = zap_With E (log l) [Str ''error'', err], traceLevel = traceLevel l\<rparr>"

definition WithField ::
  "('zl, 'sl, 'core, 'ce) env \<Rightarrow> 'sl heap \<Rightarrow> 'sl zapLogger \<Rightarrow> string \<Rightarrow> any \<Rightarrow> Logger \<times> 'sl heap" where
  "WithField E h l key val =
     new h \<lparr>log = zap_With E (log l) [Str key, val], traceLevel = traceLevel l\<rparr>"

definition SkipCallers ::
  "('zl, 'sl, 'core, 'ce) env \<Rightarrow> 'sl heap \<Rightarrow> 'sl zapLogger \<Rightarrow> int \<Rightarrow> Logger \<times> 'sl heap" where
  "SkipCallers E h l count =
     new h \<lparr>log = zap_Sugar E (zap_WithOptions E (zap_Desugar E (log l)) [AddCallerSkip count]),
            traceLevel = traceLevel l\<rparr>"

text \<open>
  \<^verbatim>\<open>With\<close>: the literal \<^verbatim>\<open>&zapLogger{log: *l.log.With(f)}\<close> names one field, so
  \<^verbatim>\<open>traceLevel\<close> is the zero value; and the variadic slice \<^verbatim>\<open>f\<close> is passed on as
  one argument.
\<close>

definition With ::
  "('zl, 'sl, 'core, 'ce) env \<Rightarrow> 'sl heap \<Rightarrow> 'sl zapLogger \<Rightarrow> any list \<Rightarrow> Logger \<times> 'sl heap" where
  "With E h l f = new h \<lparr>log = zap_With E (log l) [Slice f], traceLevel = False\<rparr>"

definition Check :: "('zl, 'sl, 'core, 'ce) env \<Rightarrow> 'sl zapLogger \<Rightarrow> LogLevel \<Rightarrow> bool" where
  "Check E l level =
     (if level = TraceLevel then traceLevel l
      else (case convLevel level of
              None \<Rightarrow> False
            | Some lvl \<Rightarrow> zap_Check E (zap_Desugar E (log l)) lvl '''' \<noteq> None))"

section \<open>The trace path and \<^verbatim>\<open>Print\<close> (zap.go)\<close>

text \<open>
  \<^verbatim>\<open>zapcore.EntryCaller\<close>, \<^verbatim>\<open>zapcore.Entry\<close> and the part of
  \<^verbatim>\<open>zapcore.CheckedEntry\<close> that \<^verbatim>\<open>trace\<close> touches: the entry and the cores it
  will be written to. The zero \<^verbatim>\<open>time.Time\<close> is 0.
\<close>

record EntryCaller =
  Defined :: bool
  PC :: nat
  File :: string
  Line :: int

record Entry =
  Entry_Level :: zapcore_Level
  Entry_Time :: nat
  Entry_LoggerName :: string
  Entry_Message :: string
  Entry_Caller :: EntryCaller
  Entry_Stack :: string

record 'core CheckedEntry =
  ce_Entry :: Entry
  ce_cores :: "'core list"

definition zero_EntryCaller :: EntryCaller where
  "zero_EntryCaller = \<lparr>Defined = False, PC = 0, File = '''', Line = 0\<rparr>"

definition zero_Entry :: Entry where
  "zero_Entry = \<lparr>Entry_Level = 0, Entry_Time = 0, Entry_LoggerName = '''',
     Entry_Message = '''', Entry_Caller = zero_EntryCaller, Entry_Stack = ''''\<rparr>"

definition zero_CheckedEntry :: "'core CheckedEntry" where
  "zero_CheckedEntry = \<lparr>ce_Entry = zero_Entry, ce_cores = []\<rparr>"

text \<open>\<^verbatim>\<open>zapcore.NewEntryCaller(pc, file, line, ok)\<close>\<close>

definition NewEntryCaller :: "nat \<times> string \<times> int \<times> bool \<Rightarrow> EntryCaller" where
  "NewEntryCaller r =
     (case r of (pc, file, line, ok) \<Rightarrow>
        if \<not> ok then zero_EntryCaller
        else \<lparr>Defined = True, PC = pc, File = file, Line = line\<rparr>)"

text \<open>
  \<^verbatim>\<open>(*CheckedEntry).AddCore\<close>: on a nil receiver it makes a checked entry holding
  \<open>ent\<close>; in both cases it appends the core and returns the pointer.
\<close>

definition AddCore ::
  "'core CheckedEntry option \<Rightarrow> Entry \<Rightarrow> 'core \<Rightarrow> 'core CheckedEntry option" where
  "AddCore ce ent core =
     (let c = (case ce of None \<Rightarrow> zero_CheckedEntry\<lparr>ce_Entry := ent\<rparr> | Some c \<Rightarrow> c)
      in Some (c\<lparr>ce_cores := ce_cores c @ [core]\<rparr>))"

text \<open>
  \<^verbatim>\<open>(*CheckedEntry).Write()\<close> hands the entry to each of its cores. The effect of
  \<^verbatim>\<open>trace\<close> is the list of these writes, (core, entry) in order.
\<close>

definition Write :: "'core CheckedEntry \<Rightarrow> ('core \<times> Entry) list" where
  "Write ce = map (\<lambda>core. (core, ce_Entry ce)) (ce_cores ce)"

definition callerSkipOffset :: nat where "callerSkipOffset = 2"

definition trace ::
  "('zl, 'sl, 'core, 'ce) env \<Rightarrow> 'sl zapLogger \<Rightarrow> string \<Rightarrow> ('core \<times> Entry) list" where
  "trace E l msg =
     (let skipLogger = zap_SugaredWithOptions E (log l) options;
          ce = AddCore (Some zero_CheckedEntry) zero_Entry (zap_Core E (zap_Desugar E skipLogger))
      in case ce of
           None \<Rightarrow> []
         | Some c \<Rightarrow>
             Write (c\<lparr>ce_Entry := (ce_Entry c)
               \<lparr>Entry_Caller := NewEntryCaller (runtime_Caller E callerSkipOffset),
                Entry_Message := msg,
                Entry_Level := zap_DebugLevel - 1\<rparr>\<rparr>))"

definition Print ::
  "('zl, 'sl, 'core, 'ce) env \<Rightarrow> 'sl zapLogger \<Rightarrow> any list \<Rightarrow> ('core \<times> Entry) list" where
  "Print E l args = trace E l (fmt_Sprint E args)"

section \<open>Contexts and the process-wide defaults (logger.go)\<close>

text \<open>
  A non-nil \<^verbatim>\<open>context.Context\<close> as far as \<^verbatim>\<open>Value\<close> can tell: the background
  context, or a parent extended by \<^verbatim>\<open>context.WithValue\<close>. \<^verbatim>\<open>Value\<close> returns
  the value of the innermost binding of the key, and \<^verbatim>\<open>nil\<close> when there is none.
  The nil context is \<open>None\<close> of \<open>Context option\<close>.
\<close>

datatype Context = Background | WithValue Context any any

fun Value :: "Context \<Rightarrow> any \<Rightarrow> any" where
  "Value Background key = Nil"
| "Value (WithValue parent k v) key = (if key = k then v else Value parent key)"

definition loggerKey :: any where "loggerKey = Str ''logger''"

text \<open>
  The package variables \<^verbatim>\<open>def\<close>, \<^verbatim>\<open>defaultContext\<close> and \<^verbatim>\<open>LoggerConfig\<close>,
  with the store.
\<close>

record 'sl state =
  heap :: "'sl heap"
  def :: "Logger option"
  defaultContext :: "Context option"
  LoggerConfig :: Config

text \<open>
  A panic stops the call: dereferencing the nil context, \<^verbatim>\<open>context.WithValue\<close> on
  a nil parent, or \<^verbatim>\<open>panic(err)\<close> in \<^verbatim>\<open>GetDefaultLogger\<close>.
\<close>

datatype panic = NilDereference | NilParent | PanicErr error

definition SetDefaultLogger :: "'sl state \<Rightarrow> Logger option \<Rightarrow> 'sl state" where
  "SetDefaultLogger s l = s\<lparr>def := l\<rparr>"

definition SetDefaultContext :: "'sl state \<Rightarrow> Context option \<Rightarrow> 'sl state" where
  "SetDefaultContext s ctx = s\<lparr>defaultContext := ctx\<rparr>"

definition GetDefaultLogger ::
  "('zl, 'sl, 'core, 'ce) env \<Rightarrow> 'sl state \<Rightarrow> panic + (Logger \<times> 'sl state)" where
  "GetDefaultLogger E s =
     (case def s of
        Some l \<Rightarrow> Inr (l, s)
      | None \<Rightarrow>
          (let s = (if Level (LoggerConfig s) = ''''
                    then s\<lparr>LoggerConfig := (LoggerConfig s)\<lparr>Level := ''DEBUG''\<rparr>\<rparr>
                    else s)
           in case newZap E (heap s) (IsJson (LoggerConfig s))
                     (Text2Level (unicode_ToUpper E) (Level (LoggerConfig s))) of
                Inl err \<Rightarrow> Inl (PanicErr err)
              | Inr (l, h') \<Rightarrow> Inr (l, s\<lparr>heap := h'\<rparr>)))"

definition ToContext :: "Context option \<Rightarrow> Logger option \<Rightarrow> panic + Context" where
  "ToContext ctx l =
     (case ctx of
        None \<Rightarrow> Inl NilParent
      | Some c \<Rightarrow>
          Inr (WithValue c loggerKey (case l of None \<Rightarrow> Nil | Some x \<Rightarrow> LoggerVal x)))"

definition FromDefaultContext ::
  "('zl, 'sl, 'core, 'ce) env \<Rightarrow> 'sl state \<Rightarrow> panic + (Logger option \<times> 'sl state)" where
  "FromDefaultContext E s =
     (let s = (if defaultContext s = None then s\<lparr>defaultContext := Some Background\<rparr> else s)
      in case defaultContext s of
           None \<Rightarrow> Inl NilDereference
         | Some dc \<Rightarrow>
             (case Value dc loggerKey of
                LoggerVal loggerFromContext \<Rightarrow> Inr (Some loggerFromContext, s)
              | _ \<Rightarrow>
                  (case GetDefaultLogger E s of
                     Inl p \<Rightarrow> Inl p
                   | Inr (l, s') \<Rightarrow> Inr (Some l, s'))))"

definition FromContext ::
  "('zl, 'sl, 'core, 'ce) env \<Rightarrow> 'sl state \<Rightarrow> Context option \<Rightarrow>
     panic + (Logger option \<times> 'sl state)" where
  "FromContext E s ctx =
     (case ctx of
        None \<Rightarrow> Inl NilDereference
      | Some c \<Rightarrow>
          (let obj = Value c loggerKey in
           if obj = Nil then FromDefaultContext E s
           else (case obj of
                   LoggerVal loggerFromContext \<Rightarrow> Inr (Some loggerFromContext, s)
                 | _ \<Rightarrow> Inr (None, s))))"

text \<open>
  The object behind the handle a method or constructor returned, read in the store it
  returned with.
\<close>

definition returned :: "Logger \<times> 'sl heap \<Rightarrow> 'sl zapLogger option" where
  "returned r = deref (snd r) (fst r)"

section \<open>A small backend for concrete instances\<close>

text \<open>
  A backend that keeps what it is given: a logger is its configuration, the fields
  attached so far and the caller skip; a level is enabled when it is at least the
  configured one; the core is the configuration. It is used only to instantiate the
  theorems at concrete inputs.
\<close>

record demo_logger =
  dl_config :: zap_Config
  dl_fields :: "any list"
  dl_callerSkip :: int

fun demo_option :: "zap_Option \<Rightarrow> demo_logger \<Rightarrow> demo_logger" where
  "demo_option (AddCallerSkip n) l = l\<lparr>dl_callerSkip := dl_callerSkip l + n\<rparr>"
| "demo_option opt l = l"

definition demo_env :: "(demo_logger, demo_logger, zap_Config, unit) env" where
  "demo_env =
     \<lparr>unicode_ToUpper = (\<lambda>s. s),
      fmt_Sprint = (\<lambda>args. concat (map (\<lambda>a. case a of Str t \<Rightarrow> t | _ \<Rightarrow> ''?'') args)),
      runtime_Caller = (\<lambda>skip. (0, ''main.go'', 10 + int skip, True)),
      zap_Build = (\<lambda>c. Inr \<lparr>dl_config = c, dl_fields = [], dl_callerSkip = 0\<rparr>),
      zap_Sugar = (\<lambda>l. l),
      zap_Desugar = (\<lambda>l. l),
      zap_With = (\<lambda>l args. l\<lparr>dl_fields := dl_fields l @ args\<rparr>),
      zap_WithOptions = (\<lambda>l opts. fold demo_option opts l),
      zap_SugaredWithOptions = (\<lambda>l opts. fold demo_option opts l),
      zap_Check = (\<lambda>l lvl msg. if sint (zc_Level (dl_config l)) \<le> sint lvl then Some () else None),
      zap_Core = dl_config\<rparr>"

text \<open>
  The same backend, except that \<^verbatim>\<open>Build\<close> refuses every configuration that is not
  a registered encoding writing to \<^verbatim>\<open>"stdout"\<close>.
\<close>

definition strict_env :: "(demo_logger, demo_logger, zap_Config, unit) env" where
  "strict_env =
     demo_env\<lparr>zap_Build :=
       (\<lambda>c. if (zc_Encoding c = ''json'' \<or> zc_Encoding c = ''console'') \<and>
                zc_OutputPaths c = [''stdout'']
             then Inr \<lparr>dl_config = c, dl_fields = [], dl_callerSkip = 0\<rparr>
             else Inl ''no encoder registered or sink not opened'')\<rparr>"

definition demo_state :: "demo_logger state" where
  "demo_state = \<lparr>heap = [], def = None, defaultContext = None,
     LoggerConfig = \<lparr>Level = '''', IsJson = False\<rparr>\<rparr>"

section \<open>Basic facts\<close>

lemma ToUpper_Nil: "ToUpper U [] = []"
  by (simp add: ToUpper_def isASCII_def)

lemma LogLevel_le_6: "(l :: 8 word) \<le> 6 \<Longrightarrow> l \<in> {0, 1, 2, 3, 4, 5, 6}"
proof -
  assume "l \<le> 6"
  then have "unat l \<le> 6" by (simp add: word_le_nat_alt)
  then have "unat l \<in> {0, 1, 2, 3, 4, 5, 6}" by auto
  moreover have "\<And>k. unat l = k \<Longrightarrow> l = word_of_nat k" by auto
  ultimately show ?thesis by (auto dest!: \<open>\<And>k. unat l = k \<Longrightarrow> l = word_of_nat k\<close>)
qed

lemma convLevel_None_iff: "(convLevel l = None) = (l = PanicLevel \<or> TraceLevel < l)"
proof -
  have "TraceLevel < l \<or> l \<in> {0, 1, 2, 3, 4, 5, 6}"
    using LogLevel_le_6 [of l] by (auto simp: TraceLevel_def not_less)
  then show ?thesis by (auto simp: convLevel_def LogLevel_defs)
qed

lemma returned_new: "returned (new h obj) = Some obj"
  by (simp add: returned_def new_def deref_def)

lemma fst_new: "fst (new h obj) = ZapLogger (length h)"
  by (simp add: new_def)

lemma take_new: "take (length h) (snd (new h obj)) = h"
  by (simp add: new_def)

lemma deref_fresh: "deref h (ZapLogger (length h)) = None"
  by (simp add: deref_def)

lemma newZap_Inr:
  "newZap E h json level = Inr (lg, h') \<Longrightarrow>
     \<exists>lvl logger. convLevel level = Some lvl \<and>
        zap_Build E (newZap_config json level lvl) = Inr logger \<and>
        lg = ZapLogger (length h) \<and>
        h' = h @ [\<lparr>log = zap_Sugar E logger, traceLevel = (TraceLevel = level)\<rparr>]"
  by (auto simp: newZap_def new_def split: option.splits sum.splits)

lemma newZap_other_store:
  "newZap E h json level = Inr (lg, h') \<Longrightarrow> \<exists>obj. newZap E k json level = Inr (new k obj)"
  by (auto simp: newZap_def split: option.splits sum.splits)

lemma demo_env_simps:
  "unicode_ToUpper demo_env s = s"
  "fmt_Sprint demo_env args = concat (map (\<lambda>a. case a of Str t \<Rightarrow> t | _ \<Rightarrow> ''?'') args)"
  "runtime_Caller demo_env skip = (0, ''main.go'', 10 + int skip, True)"
  "zap_Build demo_env c = Inr \<lparr>dl_config = c, dl_fields = [], dl_callerSkip = 0\<rparr>"
  "zap_Sugar demo_env l = l"
  "zap_Desugar demo_env l = l"
  "zap_With demo_env l args = l\<lparr>dl_fields := dl_fields l @ args\<rparr>"
  "zap_WithOptions demo_env l opts = fold demo_option opts l"
  "zap_SugaredWithOptions demo_env l opts = fold demo_option opts l"
  "zap_Check demo_env l lvl msg =
     (if sint (zc_Level (dl_config l)) \<le> sint lvl then Some () else None)"
  "zap_Core demo_env l = dl_config l"
  by (simp_all add: demo_env_def)

lemma demo_newZap:
  "convLevel level = Some lvl \<Longrightarrow>
   newZap demo_env h json level =
     Inr (ZapLogger (length h),
          h @ [\<lparr>log = \<lparr>dl_config = newZap_config json level lvl, dl_fields = [], dl_callerSkip = 0\<rparr>,
                 traceLevel = (TraceLevel = level)\<rparr>])"
  by (simp add: newZap_def new_def demo_env_def)

lemma Text2Level_recognized:
  "Text2Level U ''TRACE'' = TraceLevel" "Text2Level U ''DEBUG'' = DebugLevel"
  "Text2Level U ''INFO'' = InfoLevel" "Text2Level U ''WARNING'' = WarnLevel"
  "Text2Level U ''ERROR'' = ErrorLevel" "Text2Level U ''FATAL'' = FatalLevel"
  "Text2Level U ''PANIC'' = PanicLevel" "Text2Level U ''UNKNOWN'' = InfoLevel"
  by (simp_all add: Text2Level_def ToUpper_def isASCII_def upper_byte_def char_of_def)

lemma Text2Level_default:
  "ToUpper U s \<notin> {''TRACE'', ''DEBUG'', ''INFO'', ''WARNING'', ''ERROR'', ''FATAL'', ''PANIC'',
       ''UNKNOWN''} \<Longrightarrow> Text2Level U s = PanicLevel"
  by (simp add: Text2Level_def PanicLevel_def)

lemma NewLogger_unrecognized:
  "ToUpper (unicode_ToUpper E) (Level conf) \<notin>
     {''TRACE'', ''DEBUG'', ''INFO'', ''WARNING'', ''ERROR'', ''FATAL'', ''PANIC'', ''UNKNOWN''} \<Longrightarrow>
   NewLogger E h conf = Inl (errors_New ''wrong logging level'')"
  by (simp add: NewLogger_def Text2Level_default newZap_def convLevel_def LogLevel_defs)

lemma FromDefaultContext_not_nil: "FromDefaultContext E s \<noteq> Inr (None, s')"
  by (auto simp: FromDefaultContext_def Let_def split: any.splits sum.splits option.splits)

lemma FromDefaultContext_sets_context:
  "FromDefaultContext E s = Inr (r, s') \<Longrightarrow>
     defaultContext s' = Some (case defaultContext s of None \<Rightarrow> Background | Some c \<Rightarrow> c)"
  by (auto simp: FromDefaultContext_def GetDefaultLogger_def Let_def
      split: any.splits sum.splits option.splits if_splits)

lemma newZap_config_shape:
  "zc_Level (newZap_config json level lvl) = lvl"
  "zc_Development (newZap_config json level lvl) = True"
  "zc_Encoding (newZap_config json level lvl) = (if json then ''json'' else ''console'')"
  "zc_OutputPaths (newZap_config json level lvl) = [''stdout'']"
  "MessageKey (zc_EncoderConfig (newZap_config json level lvl)) = ''message''"
  "LevelKey (zc_EncoderConfig (newZap_config json level lvl)) = ''severity''"
  "CallerKey (zc_EncoderConfig (newZap_config json level lvl)) = ''module''"
  "TimeKey (zc_EncoderConfig (newZap_config json level lvl)) = (if json then ''timestamp'' else [])"
  "EncodeCaller (zc_EncoderConfig (newZap_config json level lvl)) =
     (if json then ShortCallerEncoder else bracketsCallerEncoder)"
  "EncodeLevel (zc_EncoderConfig (newZap_config json level lvl)) =
     (if level = TraceLevel then TraceLevelEncoder
      else if json then LowercaseLevelEncoder else CapitalColorLevelEncoder)"
  by (simp_all add: newZap_config_def Let_def)

lemma strict_env_accepts: "Build_accepts_registered strict_env"
  by (simp add: Build_accepts_registered_def strict_env_def)

lemma strict_env_rejects:
  "zap_Build strict_env (c\<lparr>zc_Encoding := ''''\<rparr>) = Inl ''no encoder registered or sink not opened''"
  by (simp add: strict_env_def)

lemma strict_env_Build:
  "zap_Build strict_env (newZap_config json level lvl) =
     Inr \<lparr>dl_config = newZap_config json level lvl, dl_fields = [], dl_callerSkip = 0\<rparr>"
  by (simp add: strict_env_def newZap_config_shape)

lemma strict_env_Sugar: "zap_Sugar strict_env l = l"
  by (simp add: strict_env_def demo_env_def)

section \<open>The level resolver\<close>

text \<open>
  C1. The specification has \<^verbatim>\<open>Text2Level\<close> return the documented level for the eight
  recognised texts, in any letter case, and \<^verbatim>\<open>InfoLevel\<close> for every other string, the
  empty one included. The code does the first (\<open>Text2Level_recognized\<close>). It does not
  do the second: the switch has no default branch, so every text whose upper-cased form
  is none of the eight gives the zero value \<^verbatim>\<open>PanicLevel\<close>, which is not
  \<^verbatim>\<open>InfoLevel\<close>. The empty string, \<^verbatim>\<open>"WARN"\<close> and \<^verbatim>\<open>"verbose"\<close> are such texts,
  and \<^verbatim>\<open>NewLogger\<close> on the zero \<^verbatim>\<open>Config\<close> fails with the wrong-level error under
  every backend.
\<close>

theorem Text2Level_unrecognized_is_PanicLevel:
  "(ToUpper U s \<notin> {''TRACE'', ''DEBUG'', ''INFO'', ''WARNING'', ''ERROR'', ''FATAL'', ''PANIC'',
        ''UNKNOWN''} \<longrightarrow> Text2Level U s = PanicLevel) \<and>
   Text2Level U '''' = PanicLevel \<and> Text2Level U ''WARN'' = PanicLevel \<and>
   Text2Level U ''verbose'' = PanicLevel \<and> PanicLevel \<noteq> InfoLevel \<and>
   NewLogger E h \<lparr>Level = '''', IsJson = False\<rparr> = Inl (errors_New ''wrong logging level'')"
proof -
  have "Text2Level U '''' = PanicLevel \<and> Text2Level U ''WARN'' = PanicLevel \<and>
        Text2Level U ''verbose'' = PanicLevel \<and> PanicLevel \<noteq> InfoLevel \<and>
        NewLogger E h \<lparr>Level = '''', IsJson = False\<rparr> = Inl (errors_New ''wrong logging level'')"
    by (simp add: Text2Level_def ToUpper_def isASCII_def upper_byte_def char_of_def LogLevel_defs
        NewLogger_def newZap_def convLevel_def)
  then show ?thesis using Text2Level_default [of U s] by blast
qed

theorem Text2Level_unrecognized_is_PanicLevel_witness:
  "ToUpper (\<lambda>s. s) ''warn'' = ''WARN'' \<and> Text2Level (\<lambda>s. s) ''warn'' = PanicLevel \<and>
   Text2Level (\<lambda>s. s) ''warn'' \<noteq> InfoLevel"
proof -
  have u: "ToUpper (\<lambda>s. s) ''warn'' = ''WARN''" by code_simp
  show ?thesis
    using Text2Level_unrecognized_is_PanicLevel [of "\<lambda>s. s" "''warn''", THEN conjunct1] u
    by (simp add: LogLevel_defs)
qed

text \<open>
  C2. \<^verbatim>\<open>convLevel\<close> returns nil exactly for \<^verbatim>\<open>PanicLevel\<close> and for the byte
  values above \<^verbatim>\<open>TraceLevel\<close> (the values outside the seven named levels); Trace and
  Debug both go to the backend's Debug level, and Info, Warn, Error and Fatal go to the
  backend levels of the same name.
\<close>

theorem convLevel_characterisation:
  "(convLevel l = None) = (l = PanicLevel \<or> TraceLevel < l) \<and>
   (convLevel l = None) =
     (l = PanicLevel \<or> l \<notin> {PanicLevel, FatalLevel, ErrorLevel, WarnLevel, InfoLevel,
                                DebugLevel, TraceLevel}) \<and>
   convLevel TraceLevel = Some zap_DebugLevel \<and>
   convLevel DebugLevel = Some zap_DebugLevel \<and>
   convLevel InfoLevel = Some zap_InfoLevel \<and>
   convLevel WarnLevel = Some zap_WarnLevel \<and>
   convLevel ErrorLevel = Some zap_ErrorLevel \<and>
   convLevel FatalLevel = Some zap_FatalLevel"
proof -
  have "(l = PanicLevel \<or> TraceLevel < l) =
        (l = PanicLevel \<or> l \<notin> {PanicLevel, FatalLevel, ErrorLevel, WarnLevel, InfoLevel,
                                   DebugLevel, TraceLevel})"
    using LogLevel_le_6 [of l] by (auto simp: LogLevel_defs not_less)
  then show ?thesis
    using convLevel_None_iff [of l] by (simp add: convLevel_def LogLevel_defs)
qed

theorem convLevel_characterisation_witness:
  "convLevel 100 = None \<and> convLevel 7 = None \<and> convLevel PanicLevel = None \<and>
   convLevel TraceLevel = convLevel DebugLevel"
  using convLevel_characterisation [of 100] convLevel_characterisation [of 7]
    convLevel_characterisation [of PanicLevel]
  by (simp add: LogLevel_defs)

section \<open>Construction\<close>

text \<open>
  C3. \<^verbatim>\<open>newZap\<close> returns the error made by \<^verbatim>\<open>errors.New("wrong logging level")\<close>
  exactly when the level has no backend level, under every backend. Under every backend
  that builds the registered encodings to \<^verbatim>\<open>"stdout"\<close>, \<^verbatim>\<open>newZap\<close> succeeds at
  every level that has a backend level, with either value of \<^verbatim>\<open>json\<close>: the
  configuration it assembles is one the backend builds, and it returns a pointer to a
  newly allocated handle, a non-nil \<^verbatim>\<open>Logger\<close>, that wraps the built logger and
  remembers whether the level was \<^verbatim>\<open>TraceLevel\<close>. In general, at such a level the
  outcome is decided by \<^verbatim>\<open>Build\<close> on that configuration: its error is passed on,
  its logger is wrapped.
\<close>

theorem newZap_fails_iff_no_backend_level:
  "(newZap E h json level = Inl (errors_New ''wrong logging level'')) = (convLevel level = None) \<and>
   (Build_accepts_registered E \<longrightarrow>
      (\<forall>lvl. convLevel level = Some lvl \<longrightarrow>
         (\<exists>logger. zap_Build E (newZap_config json level lvl) = Inr logger \<and>
            newZap E h json level =
              Inr (ZapLogger (length h),
                   h @ [\<lparr>log = zap_Sugar E logger, traceLevel = (level = TraceLevel)\<rparr>])))) \<and>
   (\<forall>lvl. convLevel level = Some lvl \<longrightarrow>
      newZap E h json level =
        (case zap_Build E (newZap_config json level lvl) of
           Inl err \<Rightarrow> Inl (BuildError err)
         | Inr logger \<Rightarrow>
             Inr (ZapLogger (length h),
                  h @ [\<lparr>log = zap_Sugar E logger, traceLevel = (level = TraceLevel)\<rparr>])))"
proof (intro conjI impI allI)
  show "(newZap E h json level = Inl (errors_New ''wrong logging level'')) = (convLevel level = None)"
    by (auto simp: newZap_def new_def split: option.splits sum.splits)
next
  fix lvl
  assume acc: "Build_accepts_registered E" and c: "convLevel level = Some lvl"
  have "(zc_Encoding (newZap_config json level lvl) = ''json'' \<or>
         zc_Encoding (newZap_config json level lvl) = ''console'') \<and>
        zc_OutputPaths (newZap_config json level lvl) = [''stdout'']"
    by (simp add: newZap_config_shape)
  with acc obtain logger where b: "zap_Build E (newZap_config json level lvl) = Inr logger"
    unfolding Build_accepts_registered_def by blast
  then have "newZap E h json level =
      Inr (ZapLogger (length h),
           h @ [\<lparr>log = zap_Sugar E logger, traceLevel = (level = TraceLevel)\<rparr>])"
    using c by (auto simp: newZap_def new_def)
  with b show "\<exists>logger. zap_Build E (newZap_config json level lvl) = Inr logger \<and>
            newZap E h json level =
              Inr (ZapLogger (length h),
                   h @ [\<lparr>log = zap_Sugar E logger, traceLevel = (level = TraceLevel)\<rparr>])"
    by blast
next
  fix lvl
  assume "convLevel level = Some lvl"
  then show "newZap E h json level =
        (case zap_Build E (newZap_config json level lvl) of
           Inl err \<Rightarrow> Inl (BuildError err)
         | Inr logger \<Rightarrow>
             Inr (ZapLogger (length h),
                  h @ [\<lparr>log = zap_Sugar E logger, traceLevel = (level = TraceLevel)\<rparr>]))"
    by (auto simp: newZap_def new_def split: sum.splits)
qed

theorem newZap_fails_iff_no_backend_level_witness:
  "Build_accepts_registered strict_env \<and>
   newZap strict_env [] True InfoLevel =
     Inr (ZapLogger 0,
          [\<lparr>log = \<lparr>dl_config = newZap_config True InfoLevel zap_InfoLevel, dl_fields = [],
                   dl_callerSkip = 0\<rparr>,
            traceLevel = False\<rparr>]) \<and>
   newZap strict_env [] False TraceLevel =
     Inr (ZapLogger 0,
          [\<lparr>log = \<lparr>dl_config = newZap_config False TraceLevel zap_DebugLevel, dl_fields = [],
                   dl_callerSkip = 0\<rparr>,
            traceLevel = True\<rparr>]) \<and>
   newZap strict_env [] True 100 = Inl (errors_New ''wrong logging level'') \<and>
   newZap strict_env [] False PanicLevel = Inl (errors_New ''wrong logging level'')"
proof -
  have i: "convLevel InfoLevel = Some zap_InfoLevel" and t: "convLevel TraceLevel = Some zap_DebugLevel"
    by (simp_all add: convLevel_def LogLevel_defs)
  have n: "convLevel 100 = None" "convLevel PanicLevel = None"
    by (simp_all add: convLevel_def LogLevel_defs)
  have ne: "InfoLevel \<noteq> TraceLevel" by (simp add: LogLevel_defs)
  note T = newZap_fails_iff_no_backend_level
  from T [of strict_env "[]" True InfoLevel, THEN conjunct2, THEN conjunct1] strict_env_accepts i
  have a: "newZap strict_env [] True InfoLevel =
     Inr (ZapLogger 0,
          [\<lparr>log = \<lparr>dl_config = newZap_config True InfoLevel zap_InfoLevel, dl_fields = [],
                   dl_callerSkip = 0\<rparr>,
            traceLevel = False\<rparr>])"
    by (simp add: strict_env_Build strict_env_Sugar ne)
  from T [of strict_env "[]" False TraceLevel, THEN conjunct2, THEN conjunct1] strict_env_accepts t
  have b: "newZap strict_env [] False TraceLevel =
     Inr (ZapLogger 0,
          [\<lparr>log = \<lparr>dl_config = newZap_config False TraceLevel zap_DebugLevel, dl_fields = [],
                   dl_callerSkip = 0\<rparr>,
            traceLevel = True\<rparr>])"
    by (simp add: strict_env_Build strict_env_Sugar)
  from T [of strict_env "[]" True 100, THEN conjunct1] n
  have c: "newZap strict_env [] True 100 = Inl (errors_New ''wrong logging level'')" by simp
  from T [of strict_env "[]" False PanicLevel, THEN conjunct1] n
  have d: "newZap strict_env [] False PanicLevel = Inl (errors_New ''wrong logging level'')" by simp
  from strict_env_accepts a b c d show ?thesis by blast
qed

text \<open>
  C4. For a handle that \<^verbatim>\<open>newZap\<close> returned, \<^verbatim>\<open>Check(TraceLevel)\<close> is true exactly
  when the level given to \<^verbatim>\<open>newZap\<close> was \<^verbatim>\<open>TraceLevel\<close>. The answer is the
  handle's flag; it is the same under every backend \<open>E'\<close>, whatever that backend's own
  \<^verbatim>\<open>Check\<close> reports for Debug.
\<close>

theorem Check_TraceLevel_after_newZap:
  assumes "newZap E h json level = Inr (lg, h')"
  shows "\<exists>l. deref h' lg = Some l \<and> traceLevel l = (level = TraceLevel) \<and>
             Check E' l TraceLevel = traceLevel l \<and>
             Check E' l TraceLevel = (level = TraceLevel)"
  using assms
  by (auto simp: newZap_def new_def deref_def Check_def split: option.splits sum.splits)

theorem Check_TraceLevel_after_newZap_witness:
  "newZap demo_env [] False TraceLevel =
     Inr (ZapLogger 0,
          [\<lparr>log = \<lparr>dl_config = newZap_config False TraceLevel zap_DebugLevel,
                   dl_fields = [], dl_callerSkip = 0\<rparr>, traceLevel = True\<rparr>]) \<and>
   Check (demo_env\<lparr>zap_Check := \<lambda>l lvl msg. None\<rparr>)
     \<lparr>log = \<lparr>dl_config = newZap_config False TraceLevel zap_DebugLevel,
             dl_fields = [], dl_callerSkip = 0\<rparr>, traceLevel = True\<rparr> TraceLevel = True \<and>
   newZap demo_env [] False DebugLevel =
     Inr (ZapLogger 0,
          [\<lparr>log = \<lparr>dl_config = newZap_config False DebugLevel zap_DebugLevel,
                   dl_fields = [], dl_callerSkip = 0\<rparr>, traceLevel = False\<rparr>]) \<and>
   Check demo_env
     \<lparr>log = \<lparr>dl_config = newZap_config False DebugLevel zap_DebugLevel,
             dl_fields = [], dl_callerSkip = 0\<rparr>, traceLevel = False\<rparr> TraceLevel = False"
proof -
  have t: "convLevel TraceLevel = Some zap_DebugLevel"
    and d: "convLevel DebugLevel = Some zap_DebugLevel"
    by (simp_all add: convLevel_def LogLevel_defs)
  have ne: "TraceLevel \<noteq> DebugLevel" "DebugLevel \<noteq> TraceLevel" by (simp_all add: LogLevel_defs)
  have nT: "newZap demo_env [] False TraceLevel =
     Inr (ZapLogger 0,
          [\<lparr>log = \<lparr>dl_config = newZap_config False TraceLevel zap_DebugLevel,
                   dl_fields = [], dl_callerSkip = 0\<rparr>, traceLevel = True\<rparr>])"
    using demo_newZap [OF t, of "[]" False] by simp
  have nD: "newZap demo_env [] False DebugLevel =
     Inr (ZapLogger 0,
          [\<lparr>log = \<lparr>dl_config = newZap_config False DebugLevel zap_DebugLevel,
                   dl_fields = [], dl_callerSkip = 0\<rparr>, traceLevel = False\<rparr>])"
    using demo_newZap [OF d, of "[]" False] by (simp add: ne)
  show ?thesis
    using Check_TraceLevel_after_newZap [OF nT, of "demo_env\<lparr>zap_Check := \<lambda>l lvl msg. None\<rparr>"]
      Check_TraceLevel_after_newZap [OF nD, of demo_env] nT nD
    by (simp add: deref_def ne)
qed

section \<open>Methods of a handle\<close>

text \<open>
  C7. \<^verbatim>\<open>WithField\<close>, \<^verbatim>\<open>WithError\<close> and \<^verbatim>\<open>SkipCallers\<close> return a new handle (a
  newly allocated object; the store's old objects, the receiver among them, are
  untouched) whose trace flag is the receiver's. \<^verbatim>\<open>With\<close> returns a new handle
  whose trace flag is false. So for a handle that \<^verbatim>\<open>newZap\<close> built at
  \<^verbatim>\<open>TraceLevel\<close>, \<^verbatim>\<open>Check(TraceLevel)\<close> is false on the result of \<^verbatim>\<open>With\<close> and
  true on the result of \<^verbatim>\<open>WithField\<close>.
\<close>

theorem mutators_traceLevel:
  "(\<exists>l'. returned (WithField E h l key val) = Some l' \<and> traceLevel l' = traceLevel l \<and>
           Check E l' TraceLevel = Check E l TraceLevel) \<and>
   (\<exists>l'. returned (WithError E h l err) = Some l' \<and> traceLevel l' = traceLevel l \<and>
           Check E l' TraceLevel = Check E l TraceLevel) \<and>
   (\<exists>l'. returned (SkipCallers E h l count) = Some l' \<and> traceLevel l' = traceLevel l \<and>
           Check E l' TraceLevel = Check E l TraceLevel) \<and>
   (\<exists>l'. returned (With E h l f) = Some l' \<and> traceLevel l' = False \<and>
           Check E l' TraceLevel = False) \<and>
   fst (WithField E h l key val) = ZapLogger (length h) \<and>
   fst (WithError E h l err) = ZapLogger (length h) \<and>
   fst (SkipCallers E h l count) = ZapLogger (length h) \<and>
   fst (With E h l f) = ZapLogger (length h) \<and>
   deref h (ZapLogger (length h)) = None \<and>
   take (length h) (snd (WithField E h l key val)) = h \<and>
   take (length h) (snd (WithError E h l err)) = h \<and>
   take (length h) (snd (SkipCallers E h l count)) = h \<and>
   take (length h) (snd (With E h l f)) = h \<and>
   (\<forall>h0 json lg t. newZap E h0 json TraceLevel = Inr (lg, h) \<longrightarrow> deref h lg = Some t \<longrightarrow>
      (\<exists>l'. returned (With E h t f) = Some l' \<and> Check E l' TraceLevel = False) \<and>
      (\<exists>l'. returned (WithField E h t key val) = Some l' \<and> Check E l' TraceLevel = True))"
  by (auto simp: WithField_def WithError_def SkipCallers_def With_def returned_new fst_new take_new
      Check_def deref_def dest!: newZap_Inr)

theorem mutators_traceLevel_witness:
  "(\<exists>l'. returned (WithField demo_env
            [\<lparr>log = \<lparr>dl_config = newZap_config True TraceLevel zap_DebugLevel,
                     dl_fields = [], dl_callerSkip = 0\<rparr>, traceLevel = True\<rparr>]
            \<lparr>log = \<lparr>dl_config = newZap_config True TraceLevel zap_DebugLevel,
                     dl_fields = [], dl_callerSkip = 0\<rparr>, traceLevel = True\<rparr>
            ''user'' (Num 7)) = Some l' \<and> Check demo_env l' TraceLevel = True) \<and>
   (\<exists>l'. returned (With demo_env
            [\<lparr>log = \<lparr>dl_config = newZap_config True TraceLevel zap_DebugLevel,
                     dl_fields = [], dl_callerSkip = 0\<rparr>, traceLevel = True\<rparr>]
            \<lparr>log = \<lparr>dl_config = newZap_config True TraceLevel zap_DebugLevel,
                     dl_fields = [], dl_callerSkip = 0\<rparr>, traceLevel = True\<rparr>
            [Str ''user'', Num 7]) = Some l' \<and> Check demo_env l' TraceLevel = False)"
proof -
  define t :: "demo_logger zapLogger" where
    "t = \<lparr>log = \<lparr>dl_config = newZap_config True TraceLevel zap_DebugLevel,
                     dl_fields = [], dl_callerSkip = 0\<rparr>, traceLevel = True\<rparr>"
  have c: "convLevel TraceLevel = Some zap_DebugLevel"
    by (simp add: convLevel_def LogLevel_defs)
  have n: "newZap demo_env [] True TraceLevel = Inr (ZapLogger 0, [t])"
    using demo_newZap [OF c, of "[]" True] by (simp add: t_def)
  have r: "deref [t] (ZapLogger 0) = Some t" by (simp add: deref_def)
  from mutators_traceLevel [of demo_env "[t]" t "''user''" "Num 7" Nil 0 "[Str ''user'', Num 7]"]
  have "\<forall>h0 json lg ta. newZap demo_env h0 json TraceLevel = Inr (lg, [t]) \<longrightarrow> deref [t] lg = Some ta \<longrightarrow>
      (\<exists>l'. returned (With demo_env [t] ta [Str ''user'', Num 7]) = Some l' \<and> Check demo_env l' TraceLevel = False) \<and>
      (\<exists>l'. returned (WithField demo_env [t] ta ''user'' (Num 7)) = Some l' \<and> Check demo_env l' TraceLevel = True)"
    by blast
  from this n r show ?thesis unfolding t_def [symmetric] by blast
qed

text \<open>
  C8. For a level other than \<^verbatim>\<open>TraceLevel\<close>, \<^verbatim>\<open>Check\<close> is false when the level has
  no backend level (\<^verbatim>\<open>PanicLevel\<close>, and every byte above \<^verbatim>\<open>TraceLevel\<close>), and is
  otherwise whether the backend's \<^verbatim>\<open>Check\<close> for the backend level and the empty
  message returns a non-nil entry. The handle's trace flag plays no part.
\<close>

theorem Check_other_levels:
  assumes "level \<noteq> TraceLevel"
  shows "Check E l level =
           (case convLevel level of
              None \<Rightarrow> False
            | Some lvl \<Rightarrow> zap_Check E (zap_Desugar E (log l)) lvl '''' \<noteq> None) \<and>
         Check E l level = Check E (l\<lparr>traceLevel := b\<rparr>) level \<and>
         Check E l PanicLevel = False \<and>
         (TraceLevel < level \<longrightarrow> Check E l level = False) \<and>
         Check E l FatalLevel = (zap_Check E (zap_Desugar E (log l)) zap_FatalLevel '''' \<noteq> None) \<and>
         Check E l ErrorLevel = (zap_Check E (zap_Desugar E (log l)) zap_ErrorLevel '''' \<noteq> None) \<and>
         Check E l WarnLevel = (zap_Check E (zap_Desugar E (log l)) zap_WarnLevel '''' \<noteq> None) \<and>
         Check E l InfoLevel = (zap_Check E (zap_Desugar E (log l)) zap_InfoLevel '''' \<noteq> None) \<and>
         Check E l DebugLevel = (zap_Check E (zap_Desugar E (log l)) zap_DebugLevel '''' \<noteq> None)"
  using assms by (auto simp: Check_def convLevel_def LogLevel_defs)

theorem Check_other_levels_witness:
  "Check demo_env \<lparr>log = \<lparr>dl_config = newZap_config True WarnLevel zap_WarnLevel,
                           dl_fields = [], dl_callerSkip = 0\<rparr>, traceLevel = False\<rparr> WarnLevel = True \<and>
   Check demo_env \<lparr>log = \<lparr>dl_config = newZap_config True WarnLevel zap_WarnLevel,
                           dl_fields = [], dl_callerSkip = 0\<rparr>, traceLevel = False\<rparr> InfoLevel = False \<and>
   Check demo_env \<lparr>log = \<lparr>dl_config = newZap_config True WarnLevel zap_WarnLevel,
                           dl_fields = [], dl_callerSkip = 0\<rparr>, traceLevel = False\<rparr> PanicLevel = False \<and>
   Check demo_env \<lparr>log = \<lparr>dl_config = newZap_config True WarnLevel zap_WarnLevel,
                           dl_fields = [], dl_callerSkip = 0\<rparr>, traceLevel = False\<rparr> 200 = False"
proof -
  define l :: "demo_logger zapLogger" where
    "l = \<lparr>log = \<lparr>dl_config = newZap_config True WarnLevel zap_WarnLevel,
                           dl_fields = [], dl_callerSkip = 0\<rparr>, traceLevel = False\<rparr>"
  have ne: "InfoLevel \<noteq> TraceLevel" "200 \<noteq> TraceLevel" and lt: "TraceLevel < 200"
    by (simp_all add: LogLevel_defs)
  have z: "zap_Check demo_env (zap_Desugar demo_env (log l)) zap_WarnLevel '''' \<noteq> None"
    "zap_Check demo_env (zap_Desugar demo_env (log l)) zap_InfoLevel '''' = None"
    by (simp_all add: l_def demo_env_simps newZap_config_def zap_Level_defs LogLevel_defs)
  from Check_other_levels [OF ne(1), of demo_env l False] z
  have "Check demo_env l WarnLevel = True \<and> Check demo_env l InfoLevel = False \<and>
        Check demo_env l PanicLevel = False"
    by blast
  moreover from Check_other_levels [OF ne(2), of demo_env l False] lt
  have "Check demo_env l 200 = False" by blast
  ultimately show ?thesis unfolding l_def by blast
qed

section \<open>Contexts and the process-wide defaults\<close>

text \<open>
  C5. When the context holds under the logger key a value that is not nil and does
  not pass the type assertion to \<^verbatim>\<open>Logger\<close>, \<^verbatim>\<open>FromContext\<close> returns nil and
  leaves the package variables as they were: it does not consult the default context or
  the default logger, whose answer is never nil and so always differs. When the context
  holds nothing under the key (\<^verbatim>\<open>Value\<close> returns nil), \<^verbatim>\<open>FromContext\<close> returns
  what \<^verbatim>\<open>FromDefaultContext\<close> returns.
\<close>

theorem FromContext_strict_and_fallthrough:
  "(Value ctx loggerKey \<noteq> Nil \<and> (\<forall>l. Value ctx loggerKey \<noteq> LoggerVal l) \<longrightarrow>
      FromContext E s (Some ctx) = Inr (None, s) \<and>
      FromContext E s (Some ctx) \<noteq> FromDefaultContext E s) \<and>
   (Value ctx loggerKey = Nil \<longrightarrow> FromContext E s (Some ctx) = FromDefaultContext E s)"
  using FromDefaultContext_not_nil [of E s s]
  by (auto simp: FromContext_def Let_def split: any.splits)

theorem FromContext_strict_and_fallthrough_witness:
  "FromContext demo_env demo_state (Some (WithValue Background loggerKey (Str ''not a logger''))) =
     Inr (None, demo_state) \<and>
   FromContext demo_env demo_state (Some (WithValue Background (Str ''user'') (Num 7))) =
     FromDefaultContext demo_env demo_state \<and>
   FromContext demo_env demo_state (Some (WithValue Background loggerKey Nil)) =
     FromDefaultContext demo_env demo_state"
  using FromContext_strict_and_fallthrough
      [of "WithValue Background loggerKey (Str ''not a logger'')" demo_env demo_state]
    FromContext_strict_and_fallthrough
      [of "WithValue Background (Str ''user'') (Num 7)" demo_env demo_state]
    FromContext_strict_and_fallthrough
      [of "WithValue Background loggerKey Nil" demo_env demo_state]
  by (simp add: loggerKey_def)

text \<open>
  C9. Round trip: for every non-nil context and every non-nil \<^verbatim>\<open>Logger\<close> value,
  \<^verbatim>\<open>ToContext\<close> succeeds and \<^verbatim>\<open>FromContext\<close> of its result returns that very
  value, whatever the context held before and whatever the package variables hold, and
  changes none of them.
\<close>

theorem FromContext_ToContext:
  "\<exists>c. ToContext (Some ctx) (Some l) = Inr c \<and> FromContext E s (Some c) = Inr (Some l, s)"
  by (simp add: ToContext_def FromContext_def)

theorem FromContext_ToContext_witness:
  "ToContext (Some Background) (Some (OtherLogger 1)) =
     Inr (WithValue Background loggerKey (LoggerVal (OtherLogger 1))) \<and>
   FromContext demo_env demo_state
     (Some (WithValue Background loggerKey (LoggerVal (OtherLogger 1)))) =
     Inr (Some (OtherLogger 1), demo_state)"
  using FromContext_ToContext [of Background "OtherLogger 1" demo_env demo_state]
  by (simp add: ToContext_def)

text \<open>
  C6. \<^verbatim>\<open>GetDefaultLogger\<close> returns the default logger as it is when one is set, and
  changes nothing. When none is set it replaces an empty \<^verbatim>\<open>LoggerConfig.Level\<close> by
  \<^verbatim>\<open>"DEBUG"\<close> and calls \<^verbatim>\<open>newZap\<close> on the global configuration: a failure of
  \<^verbatim>\<open>newZap\<close> is a panic carrying the error; a success is returned, its handle at
  an address that was not allocated before, and the default stays unset, so the next
  call builds again and returns a different handle.
\<close>

theorem GetDefaultLogger_behaviour:
  "GetDefaultLogger E (SetDefaultLogger s (Some d)) = Inr (d, SetDefaultLogger s (Some d)) \<and>
   (def s = Some d \<longrightarrow> GetDefaultLogger E s = Inr (d, s)) \<and>
   (def s = None \<longrightarrow>
      (let cfg = (if Level (LoggerConfig s) = '''' then (LoggerConfig s)\<lparr>Level := ''DEBUG''\<rparr>
                  else LoggerConfig s)
       in case newZap E (heap s) (IsJson cfg) (Text2Level (unicode_ToUpper E) (Level cfg)) of
            Inl err \<Rightarrow> GetDefaultLogger E s = Inl (PanicErr err)
          | Inr (lg, h') \<Rightarrow>
              GetDefaultLogger E s = Inr (lg, s\<lparr>heap := h', LoggerConfig := cfg\<rparr>) \<and>
              deref (heap s) lg = None)) \<and>
   (def s = None \<longrightarrow> GetDefaultLogger E s = Inr (l1, s1) \<longrightarrow>
      def s1 = None \<and> (\<exists>l2 s2. GetDefaultLogger E s1 = Inr (l2, s2) \<and> l2 \<noteq> l1))"
proof (intro conjI impI)
  show "GetDefaultLogger E (SetDefaultLogger s (Some d)) = Inr (d, SetDefaultLogger s (Some d))"
    by (simp add: GetDefaultLogger_def SetDefaultLogger_def)
next
  assume "def s = Some d"
  then show "GetDefaultLogger E s = Inr (d, s)" by (simp add: GetDefaultLogger_def)
next
  assume "def s = None"
  then show "let cfg = (if Level (LoggerConfig s) = '''' then (LoggerConfig s)\<lparr>Level := ''DEBUG''\<rparr>
                  else LoggerConfig s)
       in case newZap E (heap s) (IsJson cfg) (Text2Level (unicode_ToUpper E) (Level cfg)) of
            Inl err \<Rightarrow> GetDefaultLogger E s = Inl (PanicErr err)
          | Inr (lg, h') \<Rightarrow>
              GetDefaultLogger E s = Inr (lg, s\<lparr>heap := h', LoggerConfig := cfg\<rparr>) \<and>
              deref (heap s) lg = None"
    by (auto simp: GetDefaultLogger_def Let_def deref_fresh split: sum.splits dest!: newZap_Inr)
next
  assume d: "def s = None" and g: "GetDefaultLogger E s = Inr (l1, s1)"
  define cfg where "cfg = (if Level (LoggerConfig s) = '''' then (LoggerConfig s)\<lparr>Level := ''DEBUG''\<rparr>
                  else LoggerConfig s)"
  from d g obtain h' where
    n: "newZap E (heap s) (IsJson cfg) (Text2Level (unicode_ToUpper E) (Level cfg)) = Inr (l1, h')"
    and s1: "s1 = s\<lparr>heap := h', LoggerConfig := cfg\<rparr>"
    by (auto simp: GetDefaultLogger_def Let_def cfg_def split: sum.splits if_splits)
  from s1 d show "def s1 = None" by simp
  have ne: "Level cfg \<noteq> ''''" by (simp add: cfg_def)
  from newZap_Inr [OF n] have l1: "l1 = ZapLogger (length (heap s))" and
    len: "length h' = Suc (length (heap s))" by auto
  from newZap_other_store [OF n, of h'] obtain obj where
    n2: "newZap E h' (IsJson cfg) (Text2Level (unicode_ToUpper E) (Level cfg)) = Inr (new h' obj)"
    by blast
  have "GetDefaultLogger E s1 = Inr (ZapLogger (length h'), s1\<lparr>heap := h' @ [obj]\<rparr>)"
    using n2 ne d by (simp add: GetDefaultLogger_def s1 new_def)
  with l1 len show "\<exists>l2 s2. GetDefaultLogger E s1 = Inr (l2, s2) \<and> l2 \<noteq> l1" by simp
qed

theorem GetDefaultLogger_behaviour_witness:
  "GetDefaultLogger demo_env (SetDefaultLogger demo_state (Some (OtherLogger 7))) =
     Inr (OtherLogger 7, SetDefaultLogger demo_state (Some (OtherLogger 7))) \<and>
   GetDefaultLogger demo_env demo_state =
     Inr (ZapLogger 0,
          demo_state\<lparr>heap := [\<lparr>log = \<lparr>dl_config = newZap_config False DebugLevel zap_DebugLevel,
                                       dl_fields = [], dl_callerSkip = 0\<rparr>,
                                 traceLevel = False\<rparr>],
                      LoggerConfig := \<lparr>Level = ''DEBUG'', IsJson = False\<rparr>\<rparr>) \<and>
   (\<exists>l2 s2. GetDefaultLogger demo_env
               (demo_state\<lparr>heap := [\<lparr>log = \<lparr>dl_config = newZap_config False DebugLevel zap_DebugLevel,
                                       dl_fields = [], dl_callerSkip = 0\<rparr>,
                                 traceLevel = False\<rparr>],
                      LoggerConfig := \<lparr>Level = ''DEBUG'', IsJson = False\<rparr>\<rparr>) = Inr (l2, s2) \<and>
            l2 \<noteq> ZapLogger 0) \<and>
   GetDefaultLogger demo_env (demo_state\<lparr>LoggerConfig := \<lparr>Level = ''PANIC'', IsJson = True\<rparr>\<rparr>) =
     Inl (PanicErr (errors_New ''wrong logging level''))"
proof -
  define s1 where "s1 = demo_state\<lparr>heap := [\<lparr>log = \<lparr>dl_config = newZap_config False DebugLevel zap_DebugLevel,
                                       dl_fields = [], dl_callerSkip = 0\<rparr>,
                                 traceLevel = False\<rparr>],
                      LoggerConfig := \<lparr>Level = ''DEBUG'', IsJson = False\<rparr>\<rparr>"
  have d: "convLevel DebugLevel = Some zap_DebugLevel" and p: "convLevel PanicLevel = None"
    by (simp_all add: convLevel_def LogLevel_defs)
  have ne: "TraceLevel \<noteq> DebugLevel" by (simp add: LogLevel_defs)
  have a: "GetDefaultLogger demo_env (SetDefaultLogger demo_state (Some (OtherLogger 7))) =
     Inr (OtherLogger 7, SetDefaultLogger demo_state (Some (OtherLogger 7)))"
    using GetDefaultLogger_behaviour [of demo_env demo_state "OtherLogger 7"]
    by blast
  have b: "GetDefaultLogger demo_env demo_state = Inr (ZapLogger 0, s1)"
    using GetDefaultLogger_behaviour [of demo_env demo_state, THEN conjunct2, THEN conjunct2, THEN conjunct1]
      demo_newZap [OF d, of "[]" False]
    by (simp add: demo_state_def s1_def demo_env_simps Text2Level_recognized ne)
  have c: "\<exists>l2 s2. GetDefaultLogger demo_env s1 = Inr (l2, s2) \<and> l2 \<noteq> ZapLogger 0"
    using GetDefaultLogger_behaviour [of demo_env demo_state _ "ZapLogger 0" s1] b
    by (simp add: demo_state_def)
  have e: "GetDefaultLogger demo_env (demo_state\<lparr>LoggerConfig := \<lparr>Level = ''PANIC'', IsJson = True\<rparr>\<rparr>) =
     Inl (PanicErr (errors_New ''wrong logging level''))"
    using GetDefaultLogger_behaviour
      [of demo_env "demo_state\<lparr>LoggerConfig := \<lparr>Level = ''PANIC'', IsJson = True\<rparr>\<rparr>",
        THEN conjunct2, THEN conjunct2, THEN conjunct1]
    by (simp add: demo_state_def demo_env_simps Text2Level_recognized newZap_def p)
  from a b c e show ?thesis unfolding s1_def by blast
qed

section \<open>The trace path\<close>

text \<open>
  C10. \<^verbatim>\<open>Print\<close> is \<^verbatim>\<open>trace\<close> applied to the formatted arguments. For every
  handle and argument list it hands exactly one entry to the core of the handle's
  logger: the message is \<^verbatim>\<open>fmt.Sprint(args...)\<close>, the caller is read at stack depth
  \<^verbatim>\<open>callerSkipOffset\<close> = 2, and the level is the backend's Debug level minus one
  (-2, no wrap-around), which is none of the backend's seven levels and is never a
  result of \<^verbatim>\<open>convLevel\<close>.
\<close>

theorem Print_emits_trace_entry:
  "Print E l args = trace E l (fmt_Sprint E args) \<and>
   Print E l args =
     [(zap_Core E (zap_Desugar E (zap_SugaredWithOptions E (log l) options)),
       zero_Entry\<lparr>Entry_Caller := NewEntryCaller (runtime_Caller E callerSkipOffset),
                  Entry_Message := fmt_Sprint E args,
                  Entry_Level := zap_DebugLevel - 1\<rparr>)] \<and>
   callerSkipOffset = 2 \<and>
   sint (zap_DebugLevel - 1) = sint zap_DebugLevel - 1 \<and>
   zap_DebugLevel - 1 \<notin> {zap_DebugLevel, zap_InfoLevel, zap_WarnLevel, zap_ErrorLevel,
                          zap_DPanicLevel, zap_PanicLevel, zap_FatalLevel} \<and>
   convLevel level \<noteq> Some (zap_DebugLevel - 1)"
  by (simp add: Print_def trace_def AddCore_def Write_def zero_CheckedEntry_def
      callerSkipOffset_def zap_Level_defs convLevel_def)

theorem Print_emits_trace_entry_witness:
  "Print demo_env
     \<lparr>log = \<lparr>dl_config = newZap_config True InfoLevel zap_InfoLevel, dl_fields = [],
             dl_callerSkip = 0\<rparr>, traceLevel = False\<rparr>
     [Str ''a'', Str ''b''] =
     [(newZap_config True InfoLevel zap_InfoLevel,
       \<lparr>Entry_Level = 254, Entry_Time = 0, Entry_LoggerName = '''', Entry_Message = ''ab'',
        Entry_Caller = \<lparr>Defined = True, PC = 0, File = ''main.go'', Line = 12\<rparr>,
        Entry_Stack = ''''\<rparr>)] \<and>
   sint (254 :: 8 word) = - 2"
proof -
  note p = Print_emits_trace_entry
    [of demo_env "\<lparr>log = \<lparr>dl_config = newZap_config True InfoLevel zap_InfoLevel, dl_fields = [],
             dl_callerSkip = 0\<rparr>, traceLevel = False\<rparr>" "[Str ''a'', Str ''b'']" InfoLevel]
  from p have c: "callerSkipOffset = 2" by blast
  show ?thesis
    using p [THEN conjunct2, THEN conjunct1]
    by (simp add: c demo_env_simps options_def zero_Entry_def NewEntryCaller_def zap_Level_defs)
qed

end
